theory Spec2Isabelle
  imports Main
begin

section \<open>Python values, exceptions and calls that may not return\<close>

text \<open>
  The values the package passes to \<^verbatim>\<open>bool()\<close>: a \<^verbatim>\<open>bool\<close>, an \<^verbatim>\<open>int\<close>
  (the annotation of \<^verbatim>\<open>Bit.setto\<close> is \<^verbatim>\<open>bool | int\<close>) and \<^verbatim>\<open>None\<close>
  (what the body \<^verbatim>\<open>pass\<close> of \<^verbatim>\<open>Gate.gate_op\<close> returns). \<open>PObj\<close> stands for
  any other object (a module, a class, an instance without \<^verbatim>\<open>__bool__\<close>), named by
  a string.
\<close>

datatype pyval = PBool bool | PInt int | PNone | PObj string

text \<open>The builtin \<^verbatim>\<open>bool(v)\<close>.\<close>

fun py_bool :: "pyval \<Rightarrow> bool" where
  "py_bool (PBool b) = b"
| "py_bool (PInt i) = (i \<noteq> 0)"
| "py_bool PNone = False"
| "py_bool (PObj _) = True"

text \<open>The exceptions the modelled code can raise.\<close>

datatype error = TypeError | IndexError | ValueError | NameError | RuntimeError

text \<open>
  A call returns a value, raises, or never returns because it waits for a
  \<^verbatim>\<open>threading.Lock\<close> that is held (\<open>Blocks\<close>; the model is one thread, so nobody
  releases the lock).
\<close>

datatype 'a outcome = Returns 'a | Raises error | Blocks

text \<open>Statements run in sequence over a state; an exception or a block ends the run.\<close>

type_synonym ('a, 's) prog = "'s \<Rightarrow> 'a outcome \<times> 's"

definition ret :: "'a \<Rightarrow> ('a, 's) prog" where
  "ret x s = (Returns x, s)"

definition seq :: "('a, 's) prog \<Rightarrow> ('a \<Rightarrow> ('b, 's) prog) \<Rightarrow> ('b, 's) prog" where
  "seq m f s =
     (case m s of
        (Returns x, s') \<Rightarrow> f x s'
      | (Raises e, s') \<Rightarrow> (Raises e, s')
      | (Blocks, s') \<Rightarrow> (Blocks, s'))"

text \<open>The same for expressions without state (constructors).\<close>

definition oseq :: "'a outcome \<Rightarrow> ('a \<Rightarrow> 'b outcome) \<Rightarrow> 'b outcome" where
  "oseq m f = (case m of Returns x \<Rightarrow> f x | Raises e \<Rightarrow> Raises e | Blocks \<Rightarrow> Blocks)"

text \<open>
  Indexing a Python list with an integer: \<^verbatim>\<open>xs[i]\<close> and \<^verbatim>\<open>xs[i] = v\<close>. An index from
  \<open>- len\<close> to \<open>- 1\<close> counts from the end; anything outside \<open>- len \<dots> len - 1\<close> raises
  \<^verbatim>\<open>IndexError\<close>.
\<close>

definition list_getitem :: "'a list \<Rightarrow> int \<Rightarrow> 'a outcome" where
  "list_getitem xs i =
     (if 0 \<le> i \<and> i < int (length xs) then Returns (xs ! nat i)
      else if - int (length xs) \<le> i \<and> i < 0 then Returns (xs ! nat (i + int (length xs)))
      else Raises IndexError)"

definition list_setitem :: "'a list \<Rightarrow> int \<Rightarrow> 'a \<Rightarrow> 'a list outcome" where
  "list_setitem xs i v =
     (if 0 \<le> i \<and> i < int (length xs) then Returns (xs[nat i := v])
      else if - int (length xs) \<le> i \<and> i < 0 then Returns (xs[nat (i + int (length xs)) := v])
      else Raises IndexError)"

section \<open>\<^verbatim>\<open>Bit\<close>: one shared boolean cell with a lock\<close>

text \<open>
  A \<^verbatim>\<open>Bit\<close> object has the fields \<^verbatim>\<open>state\<close> and \<^verbatim>\<open>change_lock\<close> (\<open>True\<close> while the
  lock is held). Elements hold references to Bits, and several elements may hold the same
  Bit, so Bits live in a heap addressed by natural numbers.
\<close>

record Bit =
  state :: bool
  change_lock :: bool

type_synonym heap = "nat \<Rightarrow> Bit"

text \<open>\<^verbatim>\<open>Bit.__init__\<close>: \<^verbatim>\<open>self.state = bool(state)\<close> and a fresh lock.\<close>

definition Bit_init :: "pyval \<Rightarrow> Bit" where
  "Bit_init st = \<lparr>state = py_bool st, change_lock = False\<rparr>"

text \<open>\<^verbatim>\<open>self.change_lock.acquire()\<close> and \<^verbatim>\<open>self.change_lock.release()\<close>.\<close>

definition Bit_acquire :: "nat \<Rightarrow> (unit, heap) prog" where
  "Bit_acquire a h =
     (if change_lock (h a) then (Blocks, h)
      else (Returns (), h(a := (h a)\<lparr>change_lock := True\<rparr>)))"

definition Bit_release :: "nat \<Rightarrow> (unit, heap) prog" where
  "Bit_release a h =
     (if change_lock (h a) then (Returns (), h(a := (h a)\<lparr>change_lock := False\<rparr>))
      else (Raises RuntimeError, h))"

text \<open>\<^verbatim>\<open>Bit._setto\<close> and \<^verbatim>\<open>Bit._get\<close>, the accesses without the lock.\<close>

definition Bit_priv_setto :: "nat \<Rightarrow> pyval \<Rightarrow> (unit, heap) prog" where
  "Bit_priv_setto a newstate h = (Returns (), h(a := (h a)\<lparr>state := py_bool newstate\<rparr>))"

definition Bit_priv_get :: "nat \<Rightarrow> (bool, heap) prog" where
  "Bit_priv_get a h = (Returns (state (h a)), h)"

text \<open>\<^verbatim>\<open>Bit.setto\<close>, \<^verbatim>\<open>Bit.get\<close> and \<^verbatim>\<open>Bit.__bool__\<close>.\<close>

definition Bit_setto :: "nat \<Rightarrow> pyval \<Rightarrow> (unit, heap) prog" where
  "Bit_setto a newstate =
     seq (Bit_acquire a) (\<lambda>_. seq (Bit_priv_setto a newstate) (\<lambda>_. Bit_release a))"

definition Bit_get :: "nat \<Rightarrow> (bool, heap) prog" where
  "Bit_get a =
     seq (Bit_acquire a) (\<lambda>_. seq (Bit_priv_get a) (\<lambda>st. seq (Bit_release a) (\<lambda>_. ret st)))"

definition Bit_bool :: "nat \<Rightarrow> (bool, heap) prog" where
  "Bit_bool a = Bit_get a"

text \<open>No lock of the listed Bits is held.\<close>

definition unlocked :: "heap \<Rightarrow> nat list \<Rightarrow> bool" where
  "unlocked h as = list_all (\<lambda>a. \<not> change_lock (h a)) as"

section \<open>\<^verbatim>\<open>CircuitElement\<close> and the elements of \<^verbatim>\<open>base\<close>\<close>

record CircuitElement =
  input_bits :: "nat list"
  output_bits :: "nat list"

text \<open>\<^verbatim>\<open>CircuitElement.__init__\<close> stores the two lists as they are given.\<close>

definition CircuitElement_init :: "nat list \<Rightarrow> nat list \<Rightarrow> CircuitElement outcome" where
  "CircuitElement_init ins outs = Returns \<lparr>input_bits = ins, output_bits = outs\<rparr>"

text \<open>\<^verbatim>\<open>CircuitElement.calc\<close>: \<^verbatim>\<open>pass\<close>.\<close>

definition CircuitElement_calc :: "CircuitElement \<Rightarrow> (unit, heap) prog" where
  "CircuitElement_calc el = ret ()"

record Diode = CircuitElement +
  anode_bit :: nat
  cathode_bit :: nat

text \<open>
  \<^verbatim>\<open>Diode.__init__\<close>: \<^verbatim>\<open>super().__init__([anode_bit], [cathode_bit])\<close>, then the two
  fields are read back from index 0 of the stored lists.
\<close>

definition Diode_init :: "nat \<Rightarrow> nat \<Rightarrow> Diode outcome" where
  "Diode_init anode cathode =
     oseq (CircuitElement_init [anode] [cathode]) (\<lambda>el.
     oseq (list_getitem (input_bits el) 0) (\<lambda>a.
     oseq (list_getitem (output_bits el) 0) (\<lambda>c.
       Returns \<lparr>input_bits = input_bits el, output_bits = output_bits el,
                anode_bit = a, cathode_bit = c\<rparr>)))"

text \<open>\<^verbatim>\<open>Diode.calc\<close>: \<^verbatim>\<open>self.cathode_bit.setto(self.anode_bit.get())\<close>.\<close>

definition Diode_calc :: "Diode \<Rightarrow> (unit, heap) prog" where
  "Diode_calc d = seq (Bit_get (anode_bit d)) (\<lambda>v. Bit_setto (cathode_bit d) (PBool v))"

record Triode = CircuitElement +
  emitter :: nat
  collector :: nat
  base :: nat

text \<open>
  \<^verbatim>\<open>Triode.__init__\<close>: \<^verbatim>\<open>super().__init__([emitter], [collector])\<close>; emitter and
  collector are read back from the lists, \<^verbatim>\<open>self.base = base\<close> is stored beside them.
\<close>

definition Triode_init :: "nat \<Rightarrow> nat \<Rightarrow> nat \<Rightarrow> Triode outcome" where
  "Triode_init em ba co =
     oseq (CircuitElement_init [em] [co]) (\<lambda>el.
     oseq (list_getitem (input_bits el) 0) (\<lambda>e.
     oseq (list_getitem (output_bits el) 0) (\<lambda>c.
       Returns \<lparr>input_bits = input_bits el, output_bits = output_bits el,
                emitter = e, collector = c, base = ba\<rparr>)))"

text \<open>
  \<^verbatim>\<open>Triode.calc\<close>: if \<^verbatim>\<open>self.base.get()\<close> then
  \<^verbatim>\<open>self.collector.setto(self.emitter.get())\<close> else \<^verbatim>\<open>self.collector.setto(0)\<close>.
\<close>

definition Triode_calc :: "Triode \<Rightarrow> (unit, heap) prog" where
  "Triode_calc t =
     seq (Bit_get (base t)) (\<lambda>b.
       if b then seq (Bit_get (emitter t)) (\<lambda>v. Bit_setto (collector t) (PBool v))
       else Bit_setto (collector t) (PInt 0))"

section \<open>The gates of \<^verbatim>\<open>gates\<close>\<close>

text \<open>
  \<^verbatim>\<open>input\<close> and \<^verbatim>\<open>output\<close> are reserved words here, so the fields \<^verbatim>\<open>input\<close>,
  \<^verbatim>\<open>inputs\<close> and \<^verbatim>\<open>output\<close> of the gate classes carry the initial of their class.
\<close>

record NOTGate = CircuitElement +
  input_N :: nat
  output_N :: nat

definition NOTGate_init :: "nat \<Rightarrow> nat \<Rightarrow> NOTGate outcome" where
  "NOTGate_init input_bit output_bit =
     oseq (CircuitElement_init [input_bit] [output_bit]) (\<lambda>el.
     oseq (list_getitem (input_bits el) 0) (\<lambda>i.
     oseq (list_getitem (output_bits el) 0) (\<lambda>out.
       Returns \<lparr>input_bits = input_bits el, output_bits = output_bits el,
                input_N = i, output_N = out\<rparr>)))"

text \<open>\<^verbatim>\<open>NOTGate.calc\<close>: \<^verbatim>\<open>self.output.setto(not self.input.get())\<close>.\<close>

definition NOTGate_calc :: "NOTGate \<Rightarrow> (unit, heap) prog" where
  "NOTGate_calc g =
     seq (Bit_get (input_N g)) (\<lambda>v. Bit_setto (output_N g) (PBool (\<not> v)))"

text \<open>
  The builtin \<^verbatim>\<open>all\<close> over a list of Bits: it takes \<^verbatim>\<open>bool(bit)\<close>, that is
  \<^verbatim>\<open>Bit.__bool__\<close>, of one Bit after the other and stops at the first false one.
\<close>

primrec py_all :: "nat list \<Rightarrow> (bool, heap) prog" where
  "py_all [] = ret True"
| "py_all (b # bs) = seq (Bit_bool b) (\<lambda>v. if v then py_all bs else ret False)"

record ANDGate = CircuitElement +
  inputs_A :: "nat list"
  output_A :: nat

text \<open>
  \<^verbatim>\<open>ANDGate.__init__\<close>: \<^verbatim>\<open>super().__init__(input_bits, [output_bit])\<close>,
  \<^verbatim>\<open>self.inputs = input_bits\<close>, \<^verbatim>\<open>self.output = self.output_bits[0]\<close>.
\<close>

definition ANDGate_init :: "nat list \<Rightarrow> nat \<Rightarrow> ANDGate outcome" where
  "ANDGate_init ins output_bit =
     oseq (CircuitElement_init ins [output_bit]) (\<lambda>el.
     oseq (list_getitem (output_bits el) 0) (\<lambda>out.
       Returns \<lparr>input_bits = input_bits el, output_bits = output_bits el,
                inputs_A = ins, output_A = out\<rparr>))"

text \<open>\<^verbatim>\<open>ANDGate.calc\<close>: \<^verbatim>\<open>self.output.setto(all(self.inputs))\<close>.\<close>

definition ANDGate_calc :: "ANDGate \<Rightarrow> (unit, heap) prog" where
  "ANDGate_calc g =
     seq (py_all (inputs_A g)) (\<lambda>r. Bit_setto (output_A g) (PBool r))"

record Gate = CircuitElement +
  inputs_G :: "nat list"
  output_G :: nat
  in_not :: "pyval list"
  out_not :: pyval

text \<open>
  \<^verbatim>\<open>Gate.__init__(input_bits, output_bit, *, in_not=None, out_not=False)\<close>:
  \<^verbatim>\<open>self.in_not\<close> is \<^verbatim>\<open>[]\<close> unless a list is given.
\<close>

definition Gate_init :: "nat list \<Rightarrow> nat \<Rightarrow> pyval list option \<Rightarrow> pyval \<Rightarrow> Gate outcome" where
  "Gate_init ins output_bit in_not_arg out_not_arg =
     oseq (CircuitElement_init ins [output_bit]) (\<lambda>el.
       Returns \<lparr>input_bits = input_bits el, output_bits = output_bits el,
                inputs_G = ins, output_G = output_bit,
                in_not = (case in_not_arg of None \<Rightarrow> [] | Some fl \<Rightarrow> fl),
                out_not = out_not_arg\<rparr>)"

text \<open>
  The list comprehension of \<^verbatim>\<open>Gate.calc\<close> over \<^verbatim>\<open>zip(self.inputs, self.in_not)\<close>:
  \<^verbatim>\<open>not bool(bit) if isnot else bool(bit)\<close> for each pair.
\<close>

primrec Gate_args :: "(nat \<times> pyval) list \<Rightarrow> (bool list, heap) prog" where
  "Gate_args [] = ret []"
| "Gate_args (p # ps) =
     seq (Bit_bool (fst p)) (\<lambda>v.
     seq (Gate_args ps) (\<lambda>vs. ret ((if py_bool (snd p) then \<not> v else v) # vs)))"

text \<open>
  \<^verbatim>\<open>Gate.calc\<close>. \<^verbatim>\<open>gate_op\<close> is the method a subclass overrides, so it is a
  parameter here; \<^verbatim>\<open>Gate\<close>'s own \<^verbatim>\<open>gate_op\<close> is \<^verbatim>\<open>pass\<close> and returns
  \<^verbatim>\<open>None\<close>. The output gets \<^verbatim>\<open>not result if self.out_not else result\<close>.
\<close>

definition Gate_calc :: "(bool list \<Rightarrow> pyval) \<Rightarrow> Gate \<Rightarrow> (unit, heap) prog" where
  "Gate_calc gate_op g =
     seq (Gate_args (zip (inputs_G g) (in_not g))) (\<lambda>args.
       Bit_setto (output_G g)
         (if py_bool (out_not g) then PBool (\<not> py_bool (gate_op args)) else gate_op args))"

definition Gate_gate_op :: "bool list \<Rightarrow> pyval" where
  "Gate_gate_op args = PNone"

text \<open>The core function of an AND gate: \<^verbatim>\<open>all(inputs)\<close> over the list of booleans.\<close>

definition and_op :: "bool list \<Rightarrow> pyval" where
  "and_op args = PBool (list_all (\<lambda>v. v) args)"

section \<open>\<^verbatim>\<open>Bits\<close>: a list of states behind one lock\<close>

text \<open>
  The fields of a \<^verbatim>\<open>Bits\<close> object: \<^verbatim>\<open>states\<close>, \<^verbatim>\<open>length\<close> and
  \<^verbatim>\<open>change_lock\<close> (suffixed, since \<open>length\<close> and the lock of \<^verbatim>\<open>Bit\<close> have
  these names already).
\<close>

record Bits =
  states :: "bool list"
  length_B :: nat
  change_lock_B :: bool

text \<open>The builtin \<^verbatim>\<open>len\<close> on the argument \<^verbatim>\<open>states\<close>, a list or \<^verbatim>\<open>None\<close>.\<close>

definition py_len :: "'a list option \<Rightarrow> nat outcome" where
  "py_len arg = (case arg of None \<Rightarrow> Raises TypeError | Some xs \<Rightarrow> Returns (length xs))"

text \<open>
  \<^verbatim>\<open>Bits.__init__(states=None)\<close>: \<^verbatim>\<open>self.states\<close> is \<^verbatim>\<open>[]\<close>, or
  \<^verbatim>\<open>[bool(state) for state in states]\<close> when a list is given; then
  \<^verbatim>\<open>self.length = len(states)\<close>, on the argument itself.
\<close>

definition Bits_init :: "pyval list option \<Rightarrow> Bits outcome" where
  "Bits_init arg =
     oseq (py_len arg) (\<lambda>n.
       Returns \<lparr>states = (case arg of None \<Rightarrow> [] | Some xs \<Rightarrow> map py_bool xs),
                length_B = n, change_lock_B = False\<rparr>)"

definition Bits_acquire :: "(unit, Bits) prog" where
  "Bits_acquire b =
     (if change_lock_B b then (Blocks, b) else (Returns (), b\<lparr>change_lock_B := True\<rparr>))"

definition Bits_release :: "(unit, Bits) prog" where
  "Bits_release b =
     (if change_lock_B b then (Returns (), b\<lparr>change_lock_B := False\<rparr>)
      else (Raises RuntimeError, b))"

text \<open>\<^verbatim>\<open>Bits._set\<close>: \<^verbatim>\<open>self.states[index] = bool(state)\<close>.\<close>

definition Bits_priv_set :: "int \<Rightarrow> pyval \<Rightarrow> (unit, Bits) prog" where
  "Bits_priv_set index st b =
     (case list_setitem (states b) index (py_bool st) of
        Returns xs \<Rightarrow> (Returns (), b\<lparr>states := xs\<rparr>)
      | Raises e \<Rightarrow> (Raises e, b)
      | Blocks \<Rightarrow> (Blocks, b))"

text \<open>\<^verbatim>\<open>Bits._get\<close>: \<^verbatim>\<open>return self.states[index]\<close>.\<close>

definition Bits_priv_get :: "int \<Rightarrow> (bool, Bits) prog" where
  "Bits_priv_get index b = (list_getitem (states b) index, b)"

text \<open>
  \<^verbatim>\<open>Bits.__setitem__\<close> and \<^verbatim>\<open>Bits.__getitem__\<close>: acquire, access, release. There is
  no \<^verbatim>\<open>try\<close>: when the access raises, the release is not reached.
\<close>

definition Bits_setitem :: "int \<Rightarrow> pyval \<Rightarrow> (unit, Bits) prog" where
  "Bits_setitem index st =
     seq Bits_acquire (\<lambda>_. seq (Bits_priv_set index st) (\<lambda>_. Bits_release))"

definition Bits_getitem :: "int \<Rightarrow> (bool, Bits) prog" where
  "Bits_getitem index =
     seq Bits_acquire (\<lambda>_. seq (Bits_priv_get index) (\<lambda>st.
     seq Bits_release (\<lambda>_. ret st)))"

text \<open>\<^verbatim>\<open>str(int(state))\<close> of a boolean, and \<^verbatim>\<open>''.join\<close> of these over the states.\<close>

definition str_int :: "bool \<Rightarrow> string" where
  "str_int st = (if st then ''1'' else ''0'')"

definition join_states :: "bool list \<Rightarrow> string" where
  "join_states sts = concat (map str_int sts)"

text \<open>
  The builtin \<^verbatim>\<open>int(s, 2)\<close> on strings of binary digits, the only strings
  \<^verbatim>\<open>__int__\<close> passes to it: the digits are read from the left, each doubling the value
  so far; the empty string raises \<^verbatim>\<open>ValueError\<close> ("invalid literal for int() with
  base 2"), and so does a character that is no binary digit. (Signs, blanks, underscores
  and the prefix \<^verbatim>\<open>0b\<close>, which the builtin also reads, are left out.)
\<close>

fun digits2 :: "int \<Rightarrow> string \<Rightarrow> int outcome" where
  "digits2 acc [] = Returns acc"
| "digits2 acc (c # cs) =
     (if c = CHR ''0'' then digits2 (2 * acc) cs
      else if c = CHR ''1'' then digits2 (2 * acc + 1) cs
      else Raises ValueError)"

definition py_int2 :: "string \<Rightarrow> int outcome" where
  "py_int2 s = (if s = [] then Raises ValueError else digits2 0 s)"

text \<open>
  \<^verbatim>\<open>Bits.__int__\<close>: acquire, \<^verbatim>\<open>int(''.join(str(int(state)) for state in self.states), 2)\<close>,
  release, return.
\<close>

definition Bits_int :: "(int, Bits) prog" where
  "Bits_int =
     seq Bits_acquire (\<lambda>_. seq (\<lambda>b. (py_int2 (join_states (states b)), b)) (\<lambda>num.
     seq Bits_release (\<lambda>_. ret num)))"

section \<open>\<^verbatim>\<open>BitsElem\<close>: a view of one index of a \<^verbatim>\<open>Bits\<close>\<close>

text \<open>\<^verbatim>\<open>Bits\<close> objects are held by reference too: a heap of their own.\<close>

type_synonym bits_heap = "nat \<Rightarrow> Bits"

record BitsElem =
  master :: nat
  index :: int

definition BitsElem_init :: "nat \<Rightarrow> int \<Rightarrow> BitsElem" where
  "BitsElem_init m i = \<lparr>master = m, index = i\<rparr>"

text \<open>A method of the object at address \<open>m\<close>, run on the heap.\<close>

definition on_master :: "nat \<Rightarrow> ('a, Bits) prog \<Rightarrow> ('a, bits_heap) prog" where
  "on_master m p H = (case p (H m) of (r, b') \<Rightarrow> (r, H(m := b')))"

text \<open>
  Looking a bare name up: the local names of the running function first, then the names
  of the module (there is no enclosing function). A name found nowhere raises
  \<^verbatim>\<open>NameError\<close>. The module \<^verbatim>\<open>smartlogic/__init__.py\<close> binds the names below (its
  import, its \<^verbatim>\<open>__all__\<close> and its four classes); neither the attributes every module
  has (\<^verbatim>\<open>__name__\<close>, \<^verbatim>\<open>__doc__\<close>, \<dots>) nor the builtins hold a name \<^verbatim>\<open>index\<close>.
\<close>

definition module_globals :: "(string \<times> pyval) list" where
  "module_globals =
     [(''threading'', PObj ''module threading''), (''__all__'', PObj ''list''),
      (''Bit'', PObj ''class Bit''), (''Bits'', PObj ''class Bits''),
      (''BitsElem'', PObj ''class BitsElem''),
      (''CircuitElement'', PObj ''class CircuitElement'')]"

definition lookup_name :: "(string \<times> pyval) list \<Rightarrow> string \<Rightarrow> pyval outcome" where
  "lookup_name locals nm =
     (case map_of (locals @ module_globals) nm of
        Some v \<Rightarrow> Returns v
      | None \<Rightarrow> Raises NameError)"

text \<open>
  The index of a list subscript: an \<^verbatim>\<open>int\<close> (a \<^verbatim>\<open>bool\<close> is one); anything else
  raises \<^verbatim>\<open>TypeError\<close>.
\<close>

fun as_index :: "pyval \<Rightarrow> int outcome" where
  "as_index (PInt i) = Returns i"
| "as_index (PBool b) = Returns (if b then 1 else 0)"
| "as_index PNone = Raises TypeError"
| "as_index (PObj _) = Raises TypeError"

text \<open>
  \<^verbatim>\<open>BitsElem.setto(self, newstate)\<close>: \<^verbatim>\<open>self.master[index] = newstate\<close>, and
  \<^verbatim>\<open>BitsElem.get(self)\<close>: \<^verbatim>\<open>return self.master[index]\<close>. The subscript is the bare
  name \<^verbatim>\<open>index\<close>, not \<^verbatim>\<open>self.index\<close>; the locals are the parameters.
\<close>

definition BitsElem_setto :: "BitsElem \<Rightarrow> pyval \<Rightarrow> (unit, bits_heap) prog" where
  "BitsElem_setto self newstate H =
     (case oseq (lookup_name [(''self'', PObj ''BitsElem''), (''newstate'', newstate)] ''index'')
             as_index of
        Returns i \<Rightarrow> on_master (master self) (Bits_setitem i newstate) H
      | Raises e \<Rightarrow> (Raises e, H)
      | Blocks \<Rightarrow> (Blocks, H))"

definition BitsElem_get :: "BitsElem \<Rightarrow> (bool, bits_heap) prog" where
  "BitsElem_get self H =
     (case oseq (lookup_name [(''self'', PObj ''BitsElem'')] ''index'') as_index of
        Returns i \<Rightarrow> on_master (master self) (Bits_getitem i) H
      | Raises e \<Rightarrow> (Raises e, H)
      | Blocks \<Rightarrow> (Blocks, H))"

section \<open>Calling the constructors\<close>

text \<open>
  A call \<^verbatim>\<open>Diode(x1, ..., xk)\<close> binds its arguments to the parameters of
  \<^verbatim>\<open>__init__\<close> before the body runs. The Bits of \<^verbatim>\<open>Diode\<close>, \<^verbatim>\<open>Triode\<close> and
  \<^verbatim>\<open>NOTGate\<close>, and the one output Bit of \<^verbatim>\<open>ANDGate\<close> and \<^verbatim>\<open>Gate\<close>, are
  parameters without a default: with fewer or more arguments than these the call raises
  \<^verbatim>\<open>TypeError\<close> and no element is made. The functions below take the Bits given as a
  list; \<^verbatim>\<open>ANDGate\<close> and \<^verbatim>\<open>Gate\<close> take the list \<^verbatim>\<open>input_bits\<close> first, then the
  Bits given for the output.
\<close>

fun Diode_call :: "nat list \<Rightarrow> Diode outcome" where
  "Diode_call [anode, cathode] = Diode_init anode cathode"
| "Diode_call _ = Raises TypeError"

fun Triode_call :: "nat list \<Rightarrow> Triode outcome" where
  "Triode_call [em, ba, co] = Triode_init em ba co"
| "Triode_call _ = Raises TypeError"

fun NOTGate_call :: "nat list \<Rightarrow> NOTGate outcome" where
  "NOTGate_call [input_bit, output_bit] = NOTGate_init input_bit output_bit"
| "NOTGate_call _ = Raises TypeError"

fun ANDGate_call :: "nat list \<Rightarrow> nat list \<Rightarrow> ANDGate outcome" where
  "ANDGate_call ins [output_bit] = ANDGate_init ins output_bit"
| "ANDGate_call ins _ = Raises TypeError"

fun Gate_call :: "nat list \<Rightarrow> nat list \<Rightarrow> pyval list option \<Rightarrow> pyval \<Rightarrow> Gate outcome" where
  "Gate_call ins [output_bit] in_not_arg out_not_arg =
     Gate_init ins output_bit in_not_arg out_not_arg"
| "Gate_call ins _ in_not_arg out_not_arg = Raises TypeError"

section \<open>A heap for the examples\<close>

text \<open>Every Bit is \<^verbatim>\<open>Bit(0)\<close>: low, its lock free.\<close>

definition heap0 :: heap where
  "heap0 = (\<lambda>_. Bit_init (PInt 0))"

section \<open>The value of a bit pattern\<close>

text \<open>
  A pattern parsed by hand as a base-2 numeral, most significant bit first: the state at
  the head of a list of \<open>n\<close> states weighs \<open>2 ^ (n - 1)\<close>.
\<close>

fun msb_value :: "bool list \<Rightarrow> int" where
  "msb_value [] = 0"
| "msb_value (st # sts) = (if st then 2 ^ length sts else 0) + msb_value sts"

section \<open>Running with free locks\<close>

lemma seq_Returns: "m s = (Returns x, s') \<Longrightarrow> seq m f s = f x s'"
  by (simp add: seq_def)

lemma lock_False_same: "\<not> change_lock r \<Longrightarrow> r\<lparr>change_lock := False\<rparr> = r"
  by (cases r) simp

lemma Bit_get_free: "\<not> change_lock (h a) \<Longrightarrow> Bit_get a h = (Returns (state (h a)), h)"
  by (simp add: Bit_get_def seq_def Bit_acquire_def Bit_priv_get_def Bit_release_def ret_def
      lock_False_same)

lemma Bit_setto_free:
  "\<not> change_lock (h a) \<Longrightarrow>
   Bit_setto a v h = (Returns (), h(a := (h a)\<lparr>state := py_bool v\<rparr>))"
  by (simp add: Bit_setto_def seq_def Bit_acquire_def Bit_priv_setto_def Bit_release_def
      lock_False_same)

lemma Bit_setto_unlocked:
  "unlocked h as \<Longrightarrow> \<not> change_lock (h a) \<Longrightarrow> unlocked (snd (Bit_setto a v h)) as"
  by (simp add: Bit_setto_free unlocked_def list_all_iff)

lemma py_all_free:
  "unlocked h bs \<Longrightarrow> py_all bs h = (Returns (list_all (\<lambda>b. state (h b)) bs), h)"
  by (induction bs) (simp_all add: unlocked_def ret_def Bit_bool_def Bit_get_free seq_Returns)

lemma ANDGate_calc_free:
  "unlocked h (inputs_A g @ [output_A g]) \<Longrightarrow>
   ANDGate_calc g h =
     (Returns (), h(output_A g := (h (output_A g))
        \<lparr>state := list_all (\<lambda>b. state (h b)) (inputs_A g)\<rparr>))"
  by (simp add: ANDGate_calc_def unlocked_def py_all_free seq_Returns Bit_setto_free)

lemma Triode_calc_free:
  "unlocked h [base t, emitter t, collector t] \<Longrightarrow>
   Triode_calc t h =
     (Returns (), h(collector t := (h (collector t))
        \<lparr>state := (if state (h (base t)) then state (h (emitter t)) else False)\<rparr>))"
  by (simp add: Triode_calc_def unlocked_def seq_Returns Bit_get_free Bit_setto_free)

lemma Diode_calc_free:
  "unlocked h [anode_bit d, cathode_bit d] \<Longrightarrow>
   Diode_calc d h =
     (Returns (), h(cathode_bit d := (h (cathode_bit d))\<lparr>state := state (h (anode_bit d))\<rparr>))"
  by (simp add: Diode_calc_def unlocked_def seq_Returns Bit_get_free Bit_setto_free)

lemma NOTGate_calc_free:
  "unlocked h [input_N g, output_N g] \<Longrightarrow>
   NOTGate_calc g h =
     (Returns (), h(output_N g := (h (output_N g))\<lparr>state := \<not> state (h (input_N g))\<rparr>))"
  by (simp add: NOTGate_calc_def unlocked_def seq_Returns Bit_get_free Bit_setto_free)

lemma Gate_args_free:
  "unlocked h (map fst ps) \<Longrightarrow>
   Gate_args ps h =
     (Returns (map (\<lambda>p. if py_bool (snd p) then \<not> state (h (fst p)) else state (h (fst p)))
        ps), h)"
  by (induction ps) (simp_all add: unlocked_def ret_def Bit_bool_def Bit_get_free seq_Returns)

lemma Gate_calc_free:
  assumes "unlocked h (map fst (zip (inputs_G g) (in_not g)) @ [output_G g])"
  shows "Gate_calc gate_op g h =
     (Returns (), h(output_G g := (h (output_G g))
        \<lparr>state :=
           (if py_bool (out_not g)
            then \<not> py_bool (gate_op
              (map (\<lambda>p. if py_bool (snd p) then \<not> state (h (fst p)) else state (h (fst p)))
                (zip (inputs_G g) (in_not g))))
            else py_bool (gate_op
              (map (\<lambda>p. if py_bool (snd p) then \<not> state (h (fst p)) else state (h (fst p)))
                (zip (inputs_G g) (in_not g)))))\<rparr>))"
proof -
  from assms have a: "unlocked h (map fst (zip (inputs_G g) (in_not g)))"
    and o: "\<not> change_lock (h (output_G g))"
    by (simp_all add: unlocked_def)
  show ?thesis
    unfolding Gate_calc_def
    using o by (simp add: seq_def Gate_args_free [OF a] Bit_setto_free)
qed

lemma lock_B_False_same: "\<not> change_lock_B b \<Longrightarrow> b\<lparr>change_lock_B := False\<rparr> = b"
  by (cases b) simp

lemma digits2_join:
  "digits2 acc (join_states sts) = Returns (acc * 2 ^ length sts + msb_value sts)"
proof (induction sts arbitrary: acc)
  case Nil
  show ?case by (simp add: join_states_def)
next
  case (Cons st sts)
  have "join_states (st # sts) = str_int st @ join_states sts"
    by (simp add: join_states_def)
  with Cons show ?case
    by (cases st) (simp_all add: str_int_def join_states_def algebra_simps)
qed

lemma join_states_Nil: "(join_states sts = []) = (sts = [])"
  by (cases sts) (simp_all add: join_states_def str_int_def)

lemma Bits_int_free:
  "\<not> change_lock_B b \<Longrightarrow>
   Bits_int b =
     (if states b = [] then (Raises ValueError, b\<lparr>change_lock_B := True\<rparr>)
      else (Returns (msb_value (states b)), b))"
  by (simp add: Bits_int_def seq_def Bits_acquire_def Bits_release_def ret_def py_int2_def
      join_states_Nil digits2_join lock_B_False_same)

lemma Bits_init_Some:
  "Bits_init (Some vs) =
     Returns \<lparr>states = map py_bool vs, length_B = length vs, change_lock_B = False\<rparr>"
  by (simp add: Bits_init_def py_len_def oseq_def)

lemma Bits_getitem_free:
  "\<not> change_lock_B b \<Longrightarrow>
   Bits_getitem i b =
     (case list_getitem (states b) i of
        Returns st \<Rightarrow> (Returns st, b)
      | Raises e \<Rightarrow> (Raises e, b\<lparr>change_lock_B := True\<rparr>)
      | Blocks \<Rightarrow> (Blocks, b\<lparr>change_lock_B := True\<rparr>))"
  by (simp add: Bits_getitem_def seq_def Bits_acquire_def Bits_release_def Bits_priv_get_def
      ret_def lock_B_False_same split: outcome.split)

lemma Bits_setitem_free:
  "\<not> change_lock_B b \<Longrightarrow>
   Bits_setitem i v b =
     (case list_setitem (states b) i (py_bool v) of
        Returns xs \<Rightarrow> (Returns (), b\<lparr>states := xs\<rparr>)
      | Raises e \<Rightarrow> (Raises e, b\<lparr>change_lock_B := True\<rparr>)
      | Blocks \<Rightarrow> (Blocks, b\<lparr>change_lock_B := True\<rparr>))"
  by (cases b) (simp add: Bits_setitem_def seq_def Bits_acquire_def Bits_release_def
      Bits_priv_set_def split: outcome.split)

lemma Diode_call_wrong: "length args \<noteq> 2 \<Longrightarrow> Diode_call args = Raises TypeError"
  by (induction args rule: Diode_call.induct) simp_all

lemma Triode_call_wrong: "length args \<noteq> 3 \<Longrightarrow> Triode_call args = Raises TypeError"
  by (induction args rule: Triode_call.induct) simp_all

lemma NOTGate_call_wrong: "length args \<noteq> 2 \<Longrightarrow> NOTGate_call args = Raises TypeError"
  by (induction args rule: NOTGate_call.induct) simp_all

lemma ANDGate_call_wrong: "length outs \<noteq> 1 \<Longrightarrow> ANDGate_call ins outs = Raises TypeError"
  by (induction ins outs rule: ANDGate_call.induct) simp_all

lemma Gate_call_wrong: "length outs \<noteq> 1 \<Longrightarrow> Gate_call ins outs fl ono = Raises TypeError"
  by (induction ins outs fl ono rule: Gate_call.induct) simp_all

section \<open>The AND gate\<close>

text \<open>
  Claim C1. An AND gate with the two input Bits \<open>i1\<close> and \<open>i2\<close>, run once while the locks
  of its Bits are free, returns and leaves in its output Bit the conjunction of the two
  input states it found (whichever Bits are shared). The example runs the scenario of the
  package description: inputs 0 0, then 1 0, then 1 1 give the outputs 0, 0 and 1.
\<close>

theorem ANDGate_calc_and:
  assumes "inputs_A g = [i1, i2]" and "unlocked h [i1, i2, output_A g]"
  shows "fst (ANDGate_calc g h) = Returns () \<and>
         state (snd (ANDGate_calc g h) (output_A g)) = (state (h i1) \<and> state (h i2))"
  using assms by (simp add: ANDGate_calc_free unlocked_def)

theorem ANDGate_calc_and_witness:
  "ANDGate_init [0, 1] 2 =
     Returns \<lparr>input_bits = [0, 1], output_bits = [2], inputs_A = [0, 1], output_A = 2\<rparr> \<and>
   state (snd (ANDGate_calc
      \<lparr>input_bits = [0, 1], output_bits = [2], inputs_A = [0, 1], output_A = 2\<rparr>
      heap0) 2) = False \<and>
   state (snd (ANDGate_calc
      \<lparr>input_bits = [0, 1], output_bits = [2], inputs_A = [0, 1], output_A = 2\<rparr>
      (heap0(0 := Bit_init (PInt 1)))) 2) = False \<and>
   state (snd (ANDGate_calc
      \<lparr>input_bits = [0, 1], output_bits = [2], inputs_A = [0, 1], output_A = 2\<rparr>
      (heap0(0 := Bit_init (PInt 1), 1 := Bit_init (PInt 1)))) 2) = True"
  using
    ANDGate_calc_and [of "\<lparr>input_bits = [0, 1], output_bits = [2], inputs_A = [0, 1], output_A = 2\<rparr>"
      0 1 heap0]
    ANDGate_calc_and [of "\<lparr>input_bits = [0, 1], output_bits = [2], inputs_A = [0, 1], output_A = 2\<rparr>"
      0 1 "heap0(0 := Bit_init (PInt 1))"]
    ANDGate_calc_and [of "\<lparr>input_bits = [0, 1], output_bits = [2], inputs_A = [0, 1], output_A = 2\<rparr>"
      0 1 "heap0(0 := Bit_init (PInt 1), 1 := Bit_init (PInt 1))"]
  by (simp add: unlocked_def heap0_def Bit_init_def ANDGate_init_def CircuitElement_init_def
      oseq_def list_getitem_def)

section \<open>The triode\<close>

text \<open>
  Claim C2. A triode run once while the locks of its three Bits are free returns, and its
  collector then holds the state the emitter had when the base was high, and low when the
  base was low, whatever the emitter was.
\<close>

theorem Triode_calc_collector:
  assumes "unlocked h [base t, emitter t, collector t]"
  shows "fst (Triode_calc t h) = Returns () \<and>
         state (snd (Triode_calc t h) (collector t)) =
           (if state (h (base t)) then state (h (emitter t)) else False)"
  using assms by (simp add: Triode_calc_free)

theorem Triode_calc_collector_witness:
  "state (snd (Triode_calc
      \<lparr>input_bits = [0], output_bits = [2], emitter = 0, collector = 2, base = 1\<rparr>
      (heap0(0 := Bit_init (PInt 1), 1 := Bit_init (PInt 1)))) 2) = True \<and>
   state (snd (Triode_calc
      \<lparr>input_bits = [0], output_bits = [2], emitter = 0, collector = 2, base = 1\<rparr>
      (heap0(0 := Bit_init (PInt 1), 2 := Bit_init (PInt 1)))) 2) = False"
  using
    Triode_calc_collector [of "heap0(0 := Bit_init (PInt 1), 1 := Bit_init (PInt 1))"
      "\<lparr>input_bits = [0], output_bits = [2], emitter = 0, collector = 2, base = 1\<rparr>"]
    Triode_calc_collector [of "heap0(0 := Bit_init (PInt 1), 2 := Bit_init (PInt 1))"
      "\<lparr>input_bits = [0], output_bits = [2], emitter = 0, collector = 2, base = 1\<rparr>"]
  by (simp add: unlocked_def heap0_def Bit_init_def)

section \<open>The diode\<close>

text \<open>
  Claim C7. With the locks of its two Bits free: after \<^verbatim>\<open>anode.setto(v)\<close> one run of the
  diode returns and the cathode holds \<^verbatim>\<open>bool(v)\<close>; a run leaves the anode, and every Bit
  but the cathode, as it was; and after the caller's \<^verbatim>\<open>cathode.setto(w)\<close> one run puts
  the anode's state into the cathode and leaves the anode alone. When anode and cathode
  are two Bits, that state is the one the anode had before the caller wrote.
\<close>

theorem Diode_calc_one_way:
  assumes "unlocked h [anode_bit d, cathode_bit d]"
  shows "(let h1 = snd (Bit_setto (anode_bit d) v h);
              h2 = snd (Bit_setto (cathode_bit d) w h)
          in fst (Diode_calc d h1) = Returns () \<and>
             state (snd (Diode_calc d h1) (cathode_bit d)) = py_bool v \<and>
             fst (Diode_calc d h) = Returns () \<and>
             state (snd (Diode_calc d h) (anode_bit d)) = state (h (anode_bit d)) \<and>
             (\<forall>a. a \<noteq> cathode_bit d \<longrightarrow> snd (Diode_calc d h) a = h a) \<and>
             fst (Diode_calc d h2) = Returns () \<and>
             state (snd (Diode_calc d h2) (cathode_bit d)) = state (h2 (anode_bit d)) \<and>
             state (snd (Diode_calc d h2) (anode_bit d)) = state (h2 (anode_bit d)) \<and>
             (anode_bit d \<noteq> cathode_bit d \<longrightarrow>
                state (snd (Diode_calc d h2) (cathode_bit d)) = state (h (anode_bit d)) \<and>
                state (snd (Diode_calc d h2) (anode_bit d)) = state (h (anode_bit d))))"
proof -
  let ?an = "anode_bit d" and ?ca = "cathode_bit d"
  from assms have la: "\<not> change_lock (h ?an)" and lc: "\<not> change_lock (h ?ca)"
    by (simp_all add: unlocked_def)
  define h1 where "h1 = snd (Bit_setto ?an v h)"
  define h2 where "h2 = snd (Bit_setto ?ca w h)"
  have h1: "h1 = h(?an := (h ?an)\<lparr>state := py_bool v\<rparr>)"
    using la by (simp add: h1_def Bit_setto_free)
  have h2: "h2 = h(?ca := (h ?ca)\<lparr>state := py_bool w\<rparr>)"
    using lc by (simp add: h2_def Bit_setto_free)
  have "unlocked h1 [?an, ?ca]"
    unfolding h1_def using assms la by (rule Bit_setto_unlocked)
  then have c1: "Diode_calc d h1 = (Returns (), h1(?ca := (h1 ?ca)\<lparr>state := state (h1 ?an)\<rparr>))"
    by (rule Diode_calc_free)
  have "unlocked h2 [?an, ?ca]"
    unfolding h2_def using assms lc by (rule Bit_setto_unlocked)
  then have c2: "Diode_calc d h2 = (Returns (), h2(?ca := (h2 ?ca)\<lparr>state := state (h2 ?an)\<rparr>))"
    by (rule Diode_calc_free)
  have c0: "Diode_calc d h = (Returns (), h(?ca := (h ?ca)\<lparr>state := state (h ?an)\<rparr>))"
    using assms by (rule Diode_calc_free)
  have "fst (Diode_calc d h1) = Returns () \<and> state (snd (Diode_calc d h1) ?ca) = py_bool v"
    by (simp add: c1) (simp add: h1)
  moreover have "fst (Diode_calc d h) = Returns () \<and>
      state (snd (Diode_calc d h) ?an) = state (h ?an) \<and>
      (\<forall>a. a \<noteq> ?ca \<longrightarrow> snd (Diode_calc d h) a = h a)"
    by (simp add: c0)
  moreover have "fst (Diode_calc d h2) = Returns () \<and>
      state (snd (Diode_calc d h2) ?ca) = state (h2 ?an) \<and>
      state (snd (Diode_calc d h2) ?an) = state (h2 ?an)"
    by (simp add: c2)
  moreover have "?an \<noteq> ?ca \<longrightarrow>
      state (snd (Diode_calc d h2) ?ca) = state (h ?an) \<and>
      state (snd (Diode_calc d h2) ?an) = state (h ?an)"
    by (simp add: c2) (simp add: h2)
  ultimately show ?thesis
    unfolding h1_def h2_def Let_def by blast
qed

theorem Diode_calc_one_way_witness:
  "state (snd (Diode_calc
      \<lparr>input_bits = [0], output_bits = [1], anode_bit = 0, cathode_bit = 1\<rparr>
      (snd (Bit_setto 0 (PInt 5) heap0))) 1) = True \<and>
   state (snd (Diode_calc
      \<lparr>input_bits = [0], output_bits = [1], anode_bit = 0, cathode_bit = 1\<rparr>
      (snd (Bit_setto 1 (PBool True) heap0))) 1) = False \<and>
   state (snd (Diode_calc
      \<lparr>input_bits = [0], output_bits = [1], anode_bit = 0, cathode_bit = 1\<rparr>
      (snd (Bit_setto 1 (PBool True) heap0))) 0) = False"
proof -
  let ?d = "\<lparr>input_bits = [0], output_bits = [1], anode_bit = 0, cathode_bit = 1\<rparr>"
  have free: "unlocked heap0 [anode_bit ?d, cathode_bit ?d]"
    by (simp add: unlocked_def heap0_def Bit_init_def)
  have low: "state (heap0 0) = False"
    by (simp add: heap0_def Bit_init_def)
  have neq: "anode_bit ?d \<noteq> cathode_bit ?d"
    by simp
  from Diode_calc_one_way [OF free, of "PInt 5" "PBool True", unfolded Let_def]
  have a: "state (snd (Diode_calc ?d (snd (Bit_setto (anode_bit ?d) (PInt 5) heap0)))
             (cathode_bit ?d)) = py_bool (PInt 5)"
    and b: "anode_bit ?d \<noteq> cathode_bit ?d \<longrightarrow>
      state (snd (Diode_calc ?d (snd (Bit_setto (cathode_bit ?d) (PBool True) heap0)))
        (cathode_bit ?d)) = state (heap0 (anode_bit ?d)) \<and>
      state (snd (Diode_calc ?d (snd (Bit_setto (cathode_bit ?d) (PBool True) heap0)))
        (anode_bit ?d)) = state (heap0 (anode_bit ?d))"
    by blast+
  from a b neq low show ?thesis
    by simp
qed



section \<open>The general gate\<close>

text \<open>
  With one flag for each of two inputs, none of them set, and \<^verbatim>\<open>out_not\<close> set, the gate
  over \<open>and_op\<close> is a NAND.
\<close>

lemma Gate_calc_nand_flags:
  assumes "inputs_G g = [i1, i2]" and "in_not g = [PBool False, PBool False]"
    and "out_not g = PBool True" and "unlocked h [i1, i2, output_G g]"
  shows "fst (Gate_calc and_op g h) = Returns () \<and>
         state (snd (Gate_calc and_op g h) (output_G g)) = (\<not> (state (h i1) \<and> state (h i2)))"
proof -
  from assms have "unlocked h (map fst (zip (inputs_G g) (in_not g)) @ [output_G g])"
    by (simp add: unlocked_def)
  from Gate_calc_free [OF this] assms show ?thesis
    by (simp add: and_op_def)
qed

text \<open>
  Claim C3. \<^verbatim>\<open>Gate.calc\<close> is to feed every input, inverted where its flag says so, to
  \<^verbatim>\<open>gate_op\<close>, so that an AND gate with \<^verbatim>\<open>out_not\<close> computes NAND. The code pairs
  inputs and flags with \<^verbatim>\<open>zip\<close>, and \<^verbatim>\<open>in_not\<close> is \<^verbatim>\<open>[]\<close> unless the caller
  gives it: the gate \<^verbatim>\<open>Gate([b0, b1], b2, out_not=True)\<close> over \<open>and_op\<close> passes no input
  at all, and with both inputs low it writes low to its output (which was high), where
  NAND is high.
\<close>

theorem Gate_default_in_not_drops_inputs:
  "Gate_init [0, 1] 2 None (PBool True) =
     Returns \<lparr>input_bits = [0, 1], output_bits = [2], inputs_G = [0, 1], output_G = 2,
              in_not = [], out_not = PBool True\<rparr> \<and>
   state (heap0 0) = False \<and> state (heap0 1) = False \<and>
   state (snd (Gate_calc and_op
      \<lparr>input_bits = [0, 1], output_bits = [2], inputs_G = [0, 1], output_G = 2,
       in_not = [], out_not = PBool True\<rparr>
      (heap0(2 := Bit_init (PInt 1)))) 2) = False"
proof -
  let ?g = "\<lparr>input_bits = [0, 1], output_bits = [2], inputs_G = [0, 1], output_G = 2,
             in_not = [], out_not = PBool True\<rparr>"
  let ?h = "heap0(2 := Bit_init (PInt 1))"
  have "unlocked ?h (map fst (zip (inputs_G ?g) (in_not ?g)) @ [output_G ?g])"
    by (simp add: unlocked_def Bit_init_def)
  from Gate_calc_free [OF this, of and_op]
  have "state (snd (Gate_calc and_op ?g ?h) 2) = False"
    by (simp add: and_op_def)
  then show ?thesis
    by (simp add: Gate_init_def CircuitElement_init_def oseq_def heap0_def Bit_init_def)
qed

section \<open>Construction\<close>

text \<open>The constructors that take a list of inputs take one of any length.\<close>

lemma list_constructors_any_length:
  "CircuitElement_init ins outs = Returns \<lparr>input_bits = ins, output_bits = outs\<rparr> \<and>
   ANDGate_call ins [out] =
     Returns \<lparr>input_bits = ins, output_bits = [out], inputs_A = ins, output_A = out\<rparr>"
  by (simp add: CircuitElement_init_def ANDGate_init_def oseq_def list_getitem_def)

text \<open>
  Claim C4. The elements with a fixed number of signals take them as parameters of their
  own: a \<^verbatim>\<open>Diode\<close> or a \<^verbatim>\<open>NOTGate\<close> called with other than two Bits, a
  \<^verbatim>\<open>Triode\<close> called with other than three, and an \<^verbatim>\<open>ANDGate\<close> or a \<^verbatim>\<open>Gate\<close>
  called with other than one output Bit raise \<^verbatim>\<open>TypeError\<close> at the call, and no element
  is made. Called with the right number, every constructor returns its element. One
  \<^verbatim>\<open>calc\<close> of any element returns without raising while the locks of the Bits it
  touches are free.
\<close>

theorem construction_arity_and_calc:
  "(length args \<noteq> 2 \<longrightarrow>
      Diode_call args = Raises TypeError \<and> NOTGate_call args = Raises TypeError) \<and>
   (length args \<noteq> 3 \<longrightarrow> Triode_call args = Raises TypeError) \<and>
   (length outs \<noteq> 1 \<longrightarrow>
      ANDGate_call ins outs = Raises TypeError \<and>
      Gate_call ins outs fl ono = Raises TypeError) \<and>
   Diode_call [an, ca] =
     Returns \<lparr>input_bits = [an], output_bits = [ca], anode_bit = an, cathode_bit = ca\<rparr> \<and>
   Triode_call [em, ba, co] =
     Returns \<lparr>input_bits = [em], output_bits = [co], emitter = em, collector = co, base = ba\<rparr> \<and>
   NOTGate_call [i, out] =
     Returns \<lparr>input_bits = [i], output_bits = [out], input_N = i, output_N = out\<rparr> \<and>
   ANDGate_call ins [out] =
     Returns \<lparr>input_bits = ins, output_bits = [out], inputs_A = ins, output_A = out\<rparr> \<and>
   Gate_call ins [out] fl ono =
     Returns \<lparr>input_bits = ins, output_bits = [out], inputs_G = ins, output_G = out,
              in_not = (case fl of None \<Rightarrow> [] | Some xs \<Rightarrow> xs), out_not = ono\<rparr> \<and>
   fst (CircuitElement_calc el h) = Returns () \<and>
   (unlocked h [anode_bit d, cathode_bit d] \<longrightarrow> fst (Diode_calc d h) = Returns ()) \<and>
   (unlocked h [base t, emitter t, collector t] \<longrightarrow> fst (Triode_calc t h) = Returns ()) \<and>
   (unlocked h [input_N n, output_N n] \<longrightarrow> fst (NOTGate_calc n h) = Returns ()) \<and>
   (unlocked h (inputs_A a @ [output_A a]) \<longrightarrow> fst (ANDGate_calc a h) = Returns ()) \<and>
   (unlocked h (map fst (zip (inputs_G g) (in_not g)) @ [output_G g]) \<longrightarrow>
      fst (Gate_calc gate_op g h) = Returns ())"
proof -
  have "length args \<noteq> 2 \<longrightarrow>
      Diode_call args = Raises TypeError \<and> NOTGate_call args = Raises TypeError"
    by (simp add: Diode_call_wrong NOTGate_call_wrong)
  moreover have "length args \<noteq> 3 \<longrightarrow> Triode_call args = Raises TypeError"
    by (simp add: Triode_call_wrong)
  moreover have "length outs \<noteq> 1 \<longrightarrow>
      ANDGate_call ins outs = Raises TypeError \<and>
      Gate_call ins outs fl ono = Raises TypeError"
    by (simp add: ANDGate_call_wrong Gate_call_wrong)
  moreover have "Diode_call [an, ca] =
     Returns \<lparr>input_bits = [an], output_bits = [ca], anode_bit = an, cathode_bit = ca\<rparr>"
    by (simp add: Diode_init_def CircuitElement_init_def oseq_def list_getitem_def)
  moreover have "Triode_call [em, ba, co] =
     Returns \<lparr>input_bits = [em], output_bits = [co], emitter = em, collector = co, base = ba\<rparr>"
    by (simp add: Triode_init_def CircuitElement_init_def oseq_def list_getitem_def)
  moreover have "NOTGate_call [i, out] =
     Returns \<lparr>input_bits = [i], output_bits = [out], input_N = i, output_N = out\<rparr>"
    by (simp add: NOTGate_init_def CircuitElement_init_def oseq_def list_getitem_def)
  moreover have "ANDGate_call ins [out] =
     Returns \<lparr>input_bits = ins, output_bits = [out], inputs_A = ins, output_A = out\<rparr>"
    by (simp add: ANDGate_init_def CircuitElement_init_def oseq_def list_getitem_def)
  moreover have "Gate_call ins [out] fl ono =
     Returns \<lparr>input_bits = ins, output_bits = [out], inputs_G = ins, output_G = out,
              in_not = (case fl of None \<Rightarrow> [] | Some xs \<Rightarrow> xs), out_not = ono\<rparr>"
    by (simp add: Gate_init_def CircuitElement_init_def oseq_def)
  moreover have "fst (CircuitElement_calc el h) = Returns ()"
    by (simp add: CircuitElement_calc_def ret_def)
  moreover have "unlocked h [anode_bit d, cathode_bit d] \<longrightarrow> fst (Diode_calc d h) = Returns ()"
    by (simp add: Diode_calc_free)
  moreover have "unlocked h [base t, emitter t, collector t] \<longrightarrow>
      fst (Triode_calc t h) = Returns ()"
    by (simp add: Triode_calc_free)
  moreover have "unlocked h [input_N n, output_N n] \<longrightarrow> fst (NOTGate_calc n h) = Returns ()"
    by (simp add: NOTGate_calc_free)
  moreover have "unlocked h (inputs_A a @ [output_A a]) \<longrightarrow> fst (ANDGate_calc a h) = Returns ()"
    by (simp add: ANDGate_calc_free)
  moreover have "unlocked h (map fst (zip (inputs_G g) (in_not g)) @ [output_G g]) \<longrightarrow>
      fst (Gate_calc gate_op g h) = Returns ()"
    by (simp add: Gate_calc_free)
  ultimately show ?thesis
    by blast
qed

theorem construction_arity_and_calc_witness:
  "Triode_call [0, 1, 2, 3] = Raises TypeError \<and>
   Diode_call [0] = Raises TypeError \<and>
   NOTGate_call [0] = Raises TypeError \<and>
   ANDGate_call [0, 1] [] = Raises TypeError \<and>
   Gate_call [0, 1] [] None (PBool True) = Raises TypeError \<and>
   fst (ANDGate_calc \<lparr>input_bits = [0, 1], output_bits = [2], inputs_A = [0, 1], output_A = 2\<rparr>
     heap0) = Returns () \<and>
   fst (Diode_calc \<lparr>input_bits = [0], output_bits = [1], anode_bit = 0, cathode_bit = 1\<rparr> heap0) =
     Returns () \<and>
   fst (Triode_calc
     \<lparr>input_bits = [0], output_bits = [2], emitter = 0, collector = 2, base = 1\<rparr> heap0) =
     Returns () \<and>
   fst (NOTGate_calc \<lparr>input_bits = [0], output_bits = [1], input_N = 0, output_N = 1\<rparr> heap0) =
     Returns () \<and>
   fst (Gate_calc Gate_gate_op
     \<lparr>input_bits = [0, 1], output_bits = [2], inputs_G = [0, 1], output_G = 2,
      in_not = [PBool False, PBool True], out_not = PBool False\<rparr> heap0) = Returns ()"
proof -
  have free: "\<And>as. unlocked heap0 as"
    by (simp add: unlocked_def heap0_def Bit_init_def list_all_iff)
  from construction_arity_and_calc
    [where args = "[0, 1, 2, 3]" and ins = "[0, 1]" and outs = "[]" and fl = None
      and ono = "PBool True" and h = heap0
      and d = "\<lparr>input_bits = [0], output_bits = [1], anode_bit = 0, cathode_bit = 1\<rparr>"
      and t = "\<lparr>input_bits = [0], output_bits = [2], emitter = 0, collector = 2, base = 1\<rparr>"
      and n = "\<lparr>input_bits = [0], output_bits = [1], input_N = 0, output_N = 1\<rparr>"
      and a = "\<lparr>input_bits = [0, 1], output_bits = [2], inputs_A = [0, 1], output_A = 2\<rparr>"
      and g = "\<lparr>input_bits = [0, 1], output_bits = [2], inputs_G = [0, 1], output_G = 2,
        in_not = [PBool False, PBool True], out_not = PBool False\<rparr>"
      and gate_op = Gate_gate_op]
    construction_arity_and_calc [where args = "[0]"]
  show ?thesis
    using free by simp
qed

text \<open>
  Claim C8, against the claim as stated: the base of \<^verbatim>\<open>Triode(b0, b1, b2)\<close> is not in
  the list of inputs.
\<close>

theorem Triode_base_not_input_counterexample:
  "Triode_init 0 1 2 =
     Returns \<lparr>input_bits = [0], output_bits = [2], emitter = 0, collector = 2, base = 1\<rparr> \<and>
   1 \<notin> set (input_bits
     \<lparr>input_bits = [0], output_bits = [2], emitter = 0, collector = 2, base = 1\<rparr>)"
  by (simp add: Triode_init_def CircuitElement_init_def oseq_def list_getitem_def)

text \<open>
  Claim C8, as amended: the list of inputs of a triode is the emitter alone, its list of
  outputs is the collector alone, and the base is kept in a field of its own; the base is
  in the list of inputs only when it is the same Bit as the emitter.
\<close>

theorem Triode_init_lists:
  "\<exists>t. Triode_init em ba co = Returns t \<and>
       input_bits t = [em] \<and> output_bits t = [co] \<and>
       emitter t = em \<and> base t = ba \<and> collector t = co \<and>
       (base t \<in> set (input_bits t)) = (ba = em)"
  by (auto simp add: Triode_init_def CircuitElement_init_def oseq_def list_getitem_def)

section \<open>Indexing and converting a \<^verbatim>\<open>Bits\<close>\<close>

text \<open>
  Claim C5, against the claim as stated: on a vector of length 2 the index \<open>- 1\<close> is
  outside \<open>0 \<dots> 1\<close>, yet the read returns the last state and the write changes it.
\<close>

theorem Bits_negative_index_counterexample:
  "Bits_init (Some [PBool True, PBool False]) =
     Returns \<lparr>states = [True, False], length_B = 2, change_lock_B = False\<rparr> \<and>
   Bits_getitem (- 1) \<lparr>states = [True, False], length_B = 2, change_lock_B = False\<rparr> =
     (Returns False, \<lparr>states = [True, False], length_B = 2, change_lock_B = False\<rparr>) \<and>
   Bits_setitem (- 1) (PBool True)
       \<lparr>states = [True, False], length_B = 2, change_lock_B = False\<rparr> =
     (Returns (), \<lparr>states = [True, True], length_B = 2, change_lock_B = False\<rparr>)"
  by (simp add: Bits_init_Some Bits_getitem_def Bits_setitem_def seq_def Bits_acquire_def
      Bits_release_def Bits_priv_get_def Bits_priv_set_def ret_def list_getitem_def
      list_setitem_def)

text \<open>
  Claim C5, as amended: on a vector built from a list of \<open>n\<close> states, an index \<open>i\<close> with
  \<open>n \<le> i\<close> or \<open>i < - n\<close> makes both the read and the write raise \<^verbatim>\<open>IndexError\<close> and
  leaves the states as they were; an index from \<open>- n\<close> to \<open>- 1\<close> reads and writes the
  state at \<open>i + n\<close>; an index from \<open>0\<close> to \<open>n - 1\<close> reads and writes the state at \<open>i\<close>.
\<close>

theorem Bits_index_python:
  assumes "Bits_init (Some vs) = Returns b"
  shows "(int (length_B b) \<le> i \<or> i < - int (length_B b) \<longrightarrow>
            fst (Bits_getitem i b) = Raises IndexError \<and>
            fst (Bits_setitem i v b) = Raises IndexError \<and>
            states (snd (Bits_setitem i v b)) = states b) \<and>
         (- int (length_B b) \<le> i \<and> i < 0 \<longrightarrow>
            Bits_getitem i b = (Returns (states b ! nat (i + int (length_B b))), b) \<and>
            Bits_setitem i v b =
              (Returns (), b\<lparr>states := (states b)[nat (i + int (length_B b)) := py_bool v]\<rparr>)) \<and>
         (0 \<le> i \<and> i < int (length_B b) \<longrightarrow>
            Bits_getitem i b = (Returns (states b ! nat i), b) \<and>
            Bits_setitem i v b = (Returns (), b\<lparr>states := (states b)[nat i := py_bool v]\<rparr>))"
proof -
  from assms have b: "b = \<lparr>states = map py_bool vs, length_B = length vs, change_lock_B = False\<rparr>"
    by (simp add: Bits_init_Some)
  then have free: "\<not> change_lock_B b" and len: "length (states b) = length_B b"
    by simp_all
  show ?thesis
    by (simp add: Bits_getitem_free [OF free] Bits_setitem_free [OF free] list_getitem_def
        list_setitem_def len)
qed

theorem Bits_index_python_witness:
  "Bits_init (Some [PInt 1, PInt 0, PInt 0, PInt 0]) =
     Returns \<lparr>states = [True, False, False, False], length_B = 4, change_lock_B = False\<rparr> \<and>
   fst (Bits_getitem 5
     \<lparr>states = [True, False, False, False], length_B = 4, change_lock_B = False\<rparr>) =
     Raises IndexError \<and>
   fst (Bits_setitem 5 (PInt 1)
     \<lparr>states = [True, False, False, False], length_B = 4, change_lock_B = False\<rparr>) =
     Raises IndexError \<and>
   fst (Bits_getitem (- 4)
     \<lparr>states = [True, False, False, False], length_B = 4, change_lock_B = False\<rparr>) =
     Returns True \<and>
   fst (Bits_getitem 0
     \<lparr>states = [True, False, False, False], length_B = 4, change_lock_B = False\<rparr>) =
     Returns True"
proof -
  let ?b = "\<lparr>states = [True, False, False, False], length_B = 4, change_lock_B = False\<rparr>"
  have init: "Bits_init (Some [PInt 1, PInt 0, PInt 0, PInt 0]) = Returns ?b"
    by (simp add: Bits_init_Some)
  from Bits_index_python [OF init, of 5 "PInt 1"]
  have "fst (Bits_getitem 5 ?b) = Raises IndexError \<and>
        fst (Bits_setitem 5 (PInt 1) ?b) = Raises IndexError"
    by simp
  moreover from Bits_index_python [OF init, of "- 4" "PInt 1"]
  have "fst (Bits_getitem (- 4) ?b) = Returns True"
    by simp
  moreover from Bits_index_python [OF init, of 0 "PInt 1"]
  have "fst (Bits_getitem 0 ?b) = Returns True"
    by simp
  ultimately show ?thesis
    using init by simp
qed

text \<open>
  Claim C6. The integer of a vector that is not empty (its lock free) is the value of its
  pattern parsed by hand with the state at index 0 as the most significant bit; the vector
  is left as it was. The states 1 0 1 1 give 11.
\<close>

theorem Bits_int_msb_first:
  assumes "\<not> change_lock_B b" and "states b \<noteq> []"
  shows "Bits_int b = (Returns (msb_value (states b)), b)"
  using assms by (simp add: Bits_int_free)

theorem Bits_int_msb_first_witness:
  "Bits_init (Some [PInt 1, PInt 0, PInt 1, PInt 1]) =
     Returns \<lparr>states = [True, False, True, True], length_B = 4, change_lock_B = False\<rparr> \<and>
   fst (Bits_int \<lparr>states = [True, False, True, True], length_B = 4, change_lock_B = False\<rparr>) =
     Returns 11"
  using Bits_int_msb_first
    [of "\<lparr>states = [True, False, True, True], length_B = 4, change_lock_B = False\<rparr>"]
  by (simp add: Bits_init_def py_len_def oseq_def)

text \<open>
  Claim C10. The integer of a vector built from the empty list, of length 0, is no
  value: the call raises \<^verbatim>\<open>ValueError\<close>, from \<^verbatim>\<open>int('', 2)\<close>; it does not return 0.
\<close>

theorem Bits_int_empty:
  assumes "Bits_init (Some vs) = Returns b" and "length_B b = 0"
  shows "fst (Bits_int b) = Raises ValueError \<and> fst (Bits_int b) \<noteq> Returns 0"
  using assms by (auto simp add: Bits_init_Some Bits_int_free)

theorem Bits_int_empty_witness:
  "Bits_init (Some []) = Returns \<lparr>states = [], length_B = 0, change_lock_B = False\<rparr> \<and>
   fst (Bits_int \<lparr>states = [], length_B = 0, change_lock_B = False\<rparr>) = Raises ValueError"
  using Bits_int_empty [of "[]" "\<lparr>states = [], length_B = 0, change_lock_B = False\<rparr>"]
  by (simp add: Bits_init_Some)

section \<open>The view of one index\<close>

text \<open>
  Claim C9. A view is to read and write the state of its master at its index. Both
  methods of \<^verbatim>\<open>BitsElem\<close> subscript with the bare name \<^verbatim>\<open>index\<close>, which is bound
  nowhere: for every view and every heap, \<^verbatim>\<open>get\<close> and \<^verbatim>\<open>setto\<close> raise
  \<^verbatim>\<open>NameError\<close> and leave the master untouched.
\<close>

theorem BitsElem_NameError:
  "BitsElem_get (BitsElem_init m i) H = (Raises NameError, H) \<and>
   BitsElem_setto (BitsElem_init m i) v H = (Raises NameError, H)"
  by (simp add: BitsElem_get_def BitsElem_setto_def lookup_name_def module_globals_def oseq_def)

end
